theory Spec2Isabelle
  imports Main "HOL-Library.AList" "HOL-Library.Multiset"
    "HOL-Library.Char_ord" "HOL-Library.List_Lexorder" "HOL-Library.Word"
begin

section \<open>JavaScript values as the components use them\<close>

text \<open>
  The components receive candidates, interviews and roles as JSON objects typed
  \<^verbatim>\<open>any\<close>. A property that may be missing is an \<open>option\<close>
  (\<open>None\<close> stands for \<^verbatim>\<open>undefined\<close> and \<^verbatim>\<open>null\<close>).
  A text property is a \<open>string\<close>, a flag a \<open>bool\<close>.
\<close>

text \<open>
  A plain object (an object literal, or one decoded from JSON) inherits the members of
  \<^verbatim>\<open>Object.prototype\<close>. Reading \<^verbatim>\<open>obj[key]\<close> with a key taken from data gives
  the own property of that name when there is one, otherwise the inherited member when the
  key is one of the names below, otherwise \<^verbatim>\<open>undefined\<close>. The inherited members are
  functions (and, for \<^verbatim>\<open>__proto__\<close>, the prototype object): truthy, not nullish, and
  \<^verbatim>\<open>NaN\<close> as numbers.
\<close>

definition Object_prototype_keys :: "string list" where
  "Object_prototype_keys =
     [''constructor'', ''__proto__'', ''hasOwnProperty'', ''isPrototypeOf'',
      ''propertyIsEnumerable'', ''toLocaleString'', ''toString'', ''valueOf'',
      ''__defineGetter__'', ''__defineSetter__'', ''__lookupGetter__'', ''__lookupSetter__'']"

text \<open>JavaScript truthiness of an optional string: missing and \<^verbatim>\<open>''\<close> are falsy.\<close>

fun truthy_str :: "string option \<Rightarrow> bool" where
  "truthy_str None = False"
| "truthy_str (Some s) = (s \<noteq> [])"

text \<open>Truthiness of an optional flag: missing and \<^verbatim>\<open>false\<close> are falsy.\<close>

fun truthy_flag :: "bool option \<Rightarrow> bool" where
  "truthy_flag None = False"
| "truthy_flag (Some b) = b"

text \<open>\<^verbatim>\<open>x || d\<close> on an optional string.\<close>

fun or_str :: "string option \<Rightarrow> string \<Rightarrow> string" where
  "or_str None d = d"
| "or_str (Some s) d = (if s = [] then d else s)"

section \<open>The candidate record\<close>

record candidate =
  cand_id :: string
  cand_name :: "string option"
  cand_column :: "string option"
  cand_color :: "string option"
  sent_to_client :: "bool option"
  not_pushing_forward :: "bool option"

section \<open>KanbanBoard.tsx: the card colour\<close>

text \<open>
  \<^verbatim>\<open>getColorClass\<close> (KanbanBoard.tsx, lines 191-208): the two status flags are
  tested first, in this order, then the column; the \<^verbatim>\<open>default\<close> branch of the
  switch takes a missing column and every other value.
\<close>

definition getColorClass :: "candidate \<Rightarrow> string" where
  "getColorClass c =
     (if truthy_flag (sent_to_client c) then ''bg-green-100 border-green-500''
      else if truthy_flag (not_pushing_forward c) then ''bg-red-100 border-red-500''
      else if cand_column c = Some ''outreach'' then ''bg-slate-100 border-slate-400''
      else if cand_column c = Some ''follow-up'' then ''bg-amber-100 border-amber-500''
      else if cand_column c = Some ''evaluation'' then ''bg-blue-100 border-blue-500''
      else ''bg-slate-100 border-slate-400'')"

section \<open>KanbanBoard.tsx: collision detection for a drag frame\<close>

text \<open>
  A collision as dnd-kit reports it: the id of the droppable and the library's payload
  (here the ranking value). Droppable ids are strings in this application: a column
  registers under its column id, a card under the candidate's id, so that
  \<^verbatim>\<open>String(c.id)\<close> is \<^verbatim>\<open>c.id\<close>.
\<close>

record collision =
  collision_id :: string
  collision_data :: nat

text \<open>
  The arguments of one drag frame. \<^verbatim>\<open>rectIntersection\<close>, \<^verbatim>\<open>pointerWithin\<close>
  and \<^verbatim>\<open>closestCorners\<close> are functions of dnd-kit, not of this repository; the
  frame carries what each of them returns on \<^verbatim>\<open>args\<close>.
\<close>

record drag_args =
  active_id :: string
  rectIntersection :: "collision list"
  pointerWithin :: "collision list"
  closestCorners :: "collision list"

definition COLUMN_IDS :: "string list" where
  "COLUMN_IDS = [''outreach'', ''follow-up'', ''evaluation'']"

definition isColumnId :: "string \<Rightarrow> bool" where
  "isColumnId i = (i \<in> set COLUMN_IDS)"

text \<open>Lines 53-55: the first non-empty tier.\<close>

definition allCollisions :: "drag_args \<Rightarrow> collision list" where
  "allCollisions args =
     (if rectIntersection args \<noteq> [] then rectIntersection args
      else if pointerWithin args \<noteq> [] then pointerWithin args
      else closestCorners args)"

text \<open>
  \<^verbatim>\<open>createKanbanCollisionDetection\<close> (lines 45-74), applied to the column lookup
  and to a frame. \<^verbatim>\<open>c.id !== activeColumn\<close> compares the id with the origin
  column; the found collision is an object, hence truthy.
\<close>

definition createKanbanCollisionDetection ::
  "(string \<Rightarrow> string option) \<Rightarrow> drag_args \<Rightarrow> collision list" where
  "createKanbanCollisionDetection getActiveColumn args =
     (if allCollisions args = [] then []
      else
        let activeColumn = getActiveColumn (active_id args) in
        if truthy_str activeColumn
           \<and> list_ex (\<lambda>c. isColumnId (collision_id c)) (allCollisions args)
        then
          let columnCollisions = filter (\<lambda>c. isColumnId (collision_id c)) (allCollisions args);
              otherCollisions = filter (\<lambda>c. \<not> isColumnId (collision_id c)) (allCollisions args)
          in (case find (\<lambda>c. Some (collision_id c) \<noteq> activeColumn) columnCollisions of
                Some targetColumnCollision \<Rightarrow> targetColumnCollision # otherCollisions
              | None \<Rightarrow> allCollisions args)
        else allCollisions args)"

text \<open>Lines 182-184: \<^verbatim>\<open>candidates.find((c) => c.id === activeId)?.column\<close>.\<close>

definition getActiveColumn :: "candidate list \<Rightarrow> string \<Rightarrow> string option" where
  "getActiveColumn candidates activeId =
     (case find (\<lambda>c. cand_id c = activeId) candidates of
        None \<Rightarrow> None
      | Some c \<Rightarrow> cand_column c)"

section \<open>KanbanBoard.tsx: the end of a drag\<close>

text \<open>The body of the status request: \<^verbatim>\<open>{ column, color }\<close>, for a role and a candidate.\<close>

record status_put =
  put_role :: string
  put_candidate :: string
  put_column :: string
  put_color :: "string option"

text \<open>What the handler does to the outside, in the order it does it.\<close>

datatype effect =
    SetActiveCandidate "candidate option"
  | PutStatus status_put
  | OnUpdate
  | ConsoleError string
  | Alert string

record drag_end_event =
  active :: string
  over :: "string option"

text \<open>
  Lines 100-108: the column a drop resolves to. \<^verbatim>\<open>over.id\<close> is a column id, or
  the id of a card, whose column is then taken; a card that is not found or has no column
  ends the handler (\<open>None\<close>).
\<close>

definition resolveNewColumn :: "candidate list \<Rightarrow> string \<Rightarrow> string option" where
  "resolveNewColumn candidates overId =
     (let validColumns = [''outreach'', ''follow-up'', ''evaluation''] in
      if overId \<in> set validColumns then Some overId
      else (case find (\<lambda>c. cand_id c = overId) candidates of
              None \<Rightarrow> None
            | Some targetCandidate \<Rightarrow>
                if truthy_str (cand_column targetCandidate) then cand_column targetCandidate
                else None))"

text \<open>Lines 124-131: the colour sent with a move.\<close>

definition newColor :: "candidate \<Rightarrow> string \<Rightarrow> string option" where
  "newColor candidate newColumn =
     (if newColumn = ''outreach'' then Some ''amber-transparent''
      else if newColumn = ''follow-up'' then Some ''amber-solid''
      else if newColumn = ''evaluation'' then Some ''amber-solid''
      else cand_color candidate)"

text \<open>
  \<^verbatim>\<open>handleDragEnd\<close> (lines 92-145). \<open>put_ok\<close> tells whether the awaited request
  succeeds; a failure is caught, logged and shown in an alert.
\<close>

definition handleDragEnd ::
  "(status_put \<Rightarrow> bool) \<Rightarrow> string \<Rightarrow> candidate list \<Rightarrow> drag_end_event \<Rightarrow> effect list" where
  "handleDragEnd put_ok roleId candidates event =
     SetActiveCandidate None #
     (case over event of
        None \<Rightarrow> []
      | Some overId \<Rightarrow>
          (case resolveNewColumn candidates overId of
             None \<Rightarrow> []
           | Some newColumn \<Rightarrow>
               (case find (\<lambda>c. cand_id c = active event) candidates of
                  None \<Rightarrow> [ConsoleError ''Candidate not found:'']
                | Some candidate \<Rightarrow>
                    if cand_column candidate = Some newColumn then []
                    else
                      let request = \<lparr>put_role = roleId, put_candidate = active event,
                                      put_column = newColumn,
                                      put_color = newColor candidate newColumn\<rparr>
                      in if put_ok request then [PutStatus request, OnUpdate]
                         else [PutStatus request,
                               ConsoleError ''Error updating candidate status:'',
                               Alert ''Failed to move candidate. Please try again.''])))"

fun is_put :: "effect \<Rightarrow> bool" where
  "is_put (PutStatus r) = True"
| "is_put e = False"

section \<open>RolePage: the display order of the candidates\<close>

text \<open>
  Lines 27-35 of the role page (src/unnamed/part_000). \<open>COLUMN_ORDER\<close> is an object
  literal with three own properties.
\<close>

definition COLUMN_ORDER :: "string \<rightharpoonup> nat" where
  "COLUMN_ORDER = map_of [(''outreach'', 0), (''follow-up'', 1), (''evaluation'', 2)]"

text \<open>
  What \<^verbatim>\<open>COLUMN_ORDER[col] ?? 3\<close> evaluates to: the rank of a known column; the
  inherited member when \<open>col\<close> names one, since it is not nullish; 3 for every other
  value. \<^verbatim>\<open>a.column || 'outreach'\<close> takes a missing or empty column for outreach.
\<close>

datatype order_value = Rank nat | Member string

definition columnOrder :: "candidate \<Rightarrow> order_value" where
  "columnOrder a =
     (let col = or_str (cand_column a) ''outreach'' in
      case COLUMN_ORDER col of
        Some n \<Rightarrow> Rank n
      | None \<Rightarrow> if col \<in> set Object_prototype_keys then Member col else Rank 3)"

text \<open>A JavaScript number as the comparator returns it: an integer or \<^verbatim>\<open>NaN\<close>.\<close>

datatype jsnumber = Number int | NaN

text \<open>\<^verbatim>\<open>orderA - orderB\<close>: the difference of two ranks; with a member, \<^verbatim>\<open>NaN\<close>.\<close>

fun minus_order :: "order_value \<Rightarrow> order_value \<Rightarrow> jsnumber" where
  "minus_order (Rank m) (Rank n) = Number (int m - int n)"
| "minus_order x y = NaN"

text \<open>
  The comparator given to \<^verbatim>\<open>sort\<close>. \<^verbatim>\<open>orderA !== orderB\<close> holds for two
  different ranks, for a rank and a member, and for two different members; the same member
  is the same object. \<^verbatim>\<open>String.prototype.localeCompare\<close> belongs to the JavaScript
  engine and depends on its locale; it is the parameter \<open>localeCompare\<close>, which returns
  a negative number, zero or a positive number.
\<close>

definition compareCandidates ::
  "(string \<Rightarrow> string \<Rightarrow> int) \<Rightarrow> candidate \<Rightarrow> candidate \<Rightarrow> jsnumber" where
  "compareCandidates localeCompare a b =
     (let orderA = columnOrder a; orderB = columnOrder b in
      if orderA \<noteq> orderB then minus_order orderA orderB
      else Number (localeCompare (or_str (cand_name a) []) (or_str (cand_name b) [])))"

text \<open>
  \<^verbatim>\<open>Array.prototype.sort\<close> with a comparator. The sort reads a result of
  \<^verbatim>\<open>NaN\<close> as zero. Since ECMAScript 2019 the sort is stable, and with a consistent
  comparator its result is the one stable sorted arrangement of the array, whatever
  algorithm the engine runs; the model computes it by inserting each element, from the
  last to the first, before the first element that does not come before it. With an
  inconsistent comparator the order is left to the engine.
\<close>

fun sort_value :: "jsnumber \<Rightarrow> int" where
  "sort_value NaN = 0"
| "sort_value (Number v) = v"

fun insert_by :: "('a \<Rightarrow> 'a \<Rightarrow> int) \<Rightarrow> 'a \<Rightarrow> 'a list \<Rightarrow> 'a list" where
  "insert_by cmp x [] = [x]"
| "insert_by cmp x (y # ys) = (if cmp x y \<le> 0 then x # y # ys else y # insert_by cmp x ys)"

definition array_sort :: "('a \<Rightarrow> 'a \<Rightarrow> int) \<Rightarrow> 'a list \<Rightarrow> 'a list" where
  "array_sort cmp xs = foldr (insert_by cmp) xs []"

definition sortedCandidates ::
  "(string \<Rightarrow> string \<Rightarrow> int) \<Rightarrow> candidate list \<Rightarrow> candidate list" where
  "sortedCandidates localeCompare candidates =
     array_sort (\<lambda>a b. sort_value (compareCandidates localeCompare a b)) candidates"

text \<open>
  What ECMAScript asks of a comparison function, for \<open>localeCompare\<close>: a string equals
  itself, swapping the arguments swaps the sign, and the order is transitive.
\<close>

definition consistent_comparator :: "(string \<Rightarrow> string \<Rightarrow> int) \<Rightarrow> bool" where
  "consistent_comparator lc \<longleftrightarrow>
     (\<forall>a. lc a a = 0) \<and> (\<forall>a b. (lc a b < 0) = (0 < lc b a))
     \<and> (\<forall>a b c. lc a b \<le> 0 \<and> lc b c \<le> 0 \<longrightarrow> lc a c \<le> 0)"

text \<open>A comparison function of this kind, to run the sort on: the order of the character codes.\<close>

definition code_unit_compare :: "string \<Rightarrow> string \<Rightarrow> int" where
  "code_unit_compare a b = (if a < b then - 1 else if a = b then 0 else 1)"

section \<open>RolePage: the interview badge of the selection grid\<close>

text \<open>
  The interview as the backend returns it. \<open>interview_completed\<close> is compared with
  \<^verbatim>\<open>=== true\<close>, so its value is kept as a JavaScript value; the two texts and the
  responses are optional.
\<close>

datatype jsvalue = JUndefined | JNull | JBool bool | JNumber int | JString string

record interview =
  interview_completed :: jsvalue
  transcription :: "string option"
  summary :: "string option"
  candidate_responses :: "(string \<rightharpoonup> string) option"

text \<open>
  Lines 760-764: \<^verbatim>\<open>candidateInterviews[cand.id]\<close>, then
  \<^verbatim>\<open>interview && (interview.interview_completed === true ||
  !!(interview.transcription || interview.summary))\<close>, read as a truth value.
  \<open>candidateInterviews\<close> holds the interviews that \<^verbatim>\<open>fetchCandidateInterviews\<close>
  found (line 149).
\<close>

definition hasCompletedInterview :: "(string \<rightharpoonup> interview) \<Rightarrow> candidate \<Rightarrow> bool" where
  "hasCompletedInterview candidateInterviews cand =
     (case candidateInterviews (cand_id cand) of
        None \<Rightarrow> False
      | Some interview \<Rightarrow>
          interview_completed interview = JBool True
          \<or> truthy_str (if truthy_str (transcription interview) then transcription interview
                         else summary interview))"

section \<open>InterviewHelper.tsx: the checklist of required information\<close>

text \<open>
  What \<^verbatim>\<open>responses[key]\<close> reads on the object of the candidate's responses, whose
  own properties are texts: nothing, the own property, or the inherited member of that name.
\<close>

datatype property = Absent | Own string | Inherited string

definition get_property :: "(string \<rightharpoonup> string) \<Rightarrow> string \<Rightarrow> property" where
  "get_property obj key =
     (case obj key of
        Some v \<Rightarrow> Own v
      | None \<Rightarrow> if key \<in> set Object_prototype_keys then Inherited key else Absent)"

fun truthy_property :: "property \<Rightarrow> bool" where
  "truthy_property Absent = False"
| "truthy_property (Own v) = (v \<noteq> [])"
| "truthy_property (Inherited key) = True"

record requiredField =
  rf_field :: string
  rf_collected :: bool
  rf_value :: property

text \<open>
  Lines 57-63: the fields start uncollected and without a value, in the order of
  \<^verbatim>\<open>role.candidate_requirement_fields\<close>; when the role has no such array the state is
  left as it was.
\<close>

definition initRequiredFields ::
  "string list option \<Rightarrow> requiredField list \<Rightarrow> requiredField list" where
  "initRequiredFields candidate_requirement_fields prev =
     (case candidate_requirement_fields of
        None \<Rightarrow> prev
      | Some field_names \<Rightarrow>
          map (\<lambda>field. \<lparr>rf_field = field, rf_collected = False, rf_value = Absent\<rparr>)
            field_names)"

text \<open>
  \<^verbatim>\<open>updateRequiredFields\<close> (lines 120-126): \<^verbatim>\<open>!!responses[field.field]\<close> and
  \<^verbatim>\<open>responses[field.field] || undefined\<close>.
\<close>

definition updateRequiredFields ::
  "(string \<rightharpoonup> string) \<Rightarrow> requiredField list \<Rightarrow> requiredField list" where
  "updateRequiredFields responses prev =
     map (\<lambda>field.
            field\<lparr>rf_collected := truthy_property (get_property responses (rf_field field)),
                  rf_value := (if truthy_property (get_property responses (rf_field field))
                               then get_property responses (rf_field field) else Absent)\<rparr>)
         prev"

text \<open>
  The checklist once the component has mounted and \<^verbatim>\<open>fetchInterview\<close> has returned
  (lines 52-74): the fields are initialised, then updated with
  \<^verbatim>\<open>inv.candidate_responses || {}\<close> when there is an interview.
\<close>

definition requiredFieldsView ::
  "string list option \<Rightarrow> interview option \<Rightarrow> requiredField list" where
  "requiredFieldsView candidate_requirement_fields fetched =
     (let initial = initRequiredFields candidate_requirement_fields [] in
      case fetched of
        None \<Rightarrow> initial
      | Some fetched_interview \<Rightarrow>
          updateRequiredFields
            (case candidate_responses fetched_interview of None \<Rightarrow> Map.empty | Some r \<Rightarrow> r)
            initial)"

section \<open>CandidateCard.tsx: toggling a checklist item\<close>






section \<open>RolePage and EvaluationChat.tsx: saving the evaluation chat\<close>

text \<open>
  The texts of the chat are JavaScript strings: sequences of UTF-16 code units.
  \<open>utf16\<close> gives the code units of an ASCII literal.
\<close>

type_synonym jsstring = "16 word list"

definition utf16 :: "string \<Rightarrow> jsstring" where
  "utf16 s = map of_char s"

datatype chat_role = User | Assistant

record message =
  msg_role :: chat_role
  content :: jsstring

text \<open>
  The part of the role page that the chat uses: the id of the role (\<^verbatim>\<open>role?.id\<close>),
  the messages, the time in milliseconds, the pending timeout of the debounce effect (when
  it is due and the messages its callback holds), and the bodies of the requests
  \<^verbatim>\<open>PUT /api/roles/:id/evaluation-chat\<close> sent so far. A failed request is swallowed
  (\<^verbatim>\<open>.catch(() => {})\<close>) and changes nothing here.
\<close>

record role_page =
  role_id :: "string option"
  evaluationMessages :: "message list"
  clock :: nat
  timer :: "(nat \<times> message list) option"
  chat_puts :: "message list list"

text \<open>Lines 65-68.\<close>

definition saveEvaluationChat :: "message list \<Rightarrow> role_page \<Rightarrow> role_page" where
  "saveEvaluationChat messages st =
     (if \<not> truthy_str (role_id st) then st
      else st\<lparr>chat_puts := chat_puts st @ [messages]\<rparr>)"

text \<open>Lines 70-74.\<close>

definition persistEvaluationChatNow :: "message list \<Rightarrow> role_page \<Rightarrow> role_page" where
  "persistEvaluationChatNow messages st =
     (if \<not> truthy_str (role_id st) then st
      else st\<lparr>chat_puts := chat_puts st @ [messages]\<rparr>)"

text \<open>
  The effect of lines 84-88, run by React when \<^verbatim>\<open>evaluationMessages\<close> has changed:
  first the cleanup of its previous run (\<^verbatim>\<open>clearTimeout\<close>), then its body, which
  returns early without a role id or with no messages and otherwise sets a timeout of
  400 ms.
\<close>

definition debounceEffect :: "role_page \<Rightarrow> role_page" where
  "debounceEffect st =
     (let cleaned = st\<lparr>timer := None\<rparr> in
      if \<not> truthy_str (role_id cleaned) \<or> evaluationMessages cleaned = [] then cleaned
      else cleaned\<lparr>timer := Some (clock cleaned + 400, evaluationMessages cleaned)\<rparr>)"


text \<open>
  \<open>d\<close> milliseconds pass without another event. A timeout that falls due in this time
  fires: its callback calls \<^verbatim>\<open>saveEvaluationChat\<close> with the messages it holds.
\<close>

definition elapse :: "nat \<Rightarrow> role_page \<Rightarrow> role_page" where
  "elapse d st =
     (case timer st of
        None \<Rightarrow> st\<lparr>clock := clock st + d\<rparr>
      | Some (due, messages) \<Rightarrow>
          if due \<le> clock st + d
          then saveEvaluationChat messages (st\<lparr>clock := clock st + d, timer := None\<rparr>)
          else st\<lparr>clock := clock st + d\<rparr>)"


text \<open>The local state of the chat component.\<close>

record chat_ui =
  chat_input :: jsstring
  isLoading :: bool

text \<open>
  \<^verbatim>\<open>String.prototype.trim\<close> removes the leading and trailing white space and line
  terminators of ECMAScript: TAB, LF, VT, FF, CR, SPACE, NO-BREAK SPACE, U+1680,
  U+2000 to U+200A, U+2028, U+2029, U+202F, U+205F, U+3000 and U+FEFF. Each is one code
  unit.
\<close>

definition isWhitespace :: "16 word \<Rightarrow> bool" where
  "isWhitespace c \<longleftrightarrow>
     c \<in> set [0x0009, 0x000A, 0x000B, 0x000C, 0x000D, 0x0020, 0x00A0, 0x1680,
               0x2000, 0x2001, 0x2002, 0x2003, 0x2004, 0x2005, 0x2006, 0x2007,
               0x2008, 0x2009, 0x200A, 0x2028, 0x2029, 0x202F, 0x205F, 0x3000, 0xFEFF]"

definition trim :: "jsstring \<Rightarrow> jsstring" where
  "trim s = rev (dropWhile isWhitespace (rev (dropWhile isWhitespace s)))"

text \<open>
  What the awaited \<^verbatim>\<open>axios.post\<close> of the evaluation comes back with: the
  \<^verbatim>\<open>response\<close> and \<^verbatim>\<open>detail\<close> of the reply, both texts here, or a failure,
  given with the message that lines 62-71 derive from it.
\<close>

datatype evaluate_outcome = Replied "jsstring option" "jsstring option" | Failed jsstring

text \<open>
  Line 52, \<^verbatim>\<open>response.data?.response ?? response.data?.detail ?? 'No response received'\<close>,
  and line 67 for a failure.
\<close>

fun replyContent :: "evaluate_outcome \<Rightarrow> jsstring" where
  "replyContent (Replied response detail) =
     (case response of
        Some r \<Rightarrow> r
      | None \<Rightarrow> (case detail of Some d \<Rightarrow> d | None \<Rightarrow> utf16 ''No response received''))"
| "replyContent (Failed errorContent) = errorContent"

text \<open>
  After a handler has set the messages, React renders and then runs the effect; \<open>r\<close>
  is the time this takes, in which a timeout that is still pending can fall due.
\<close>

definition rerender :: "nat \<Rightarrow> role_page \<Rightarrow> role_page" where
  "rerender r st = debounceEffect (elapse r st)"

text \<open>
  \<^verbatim>\<open>handleSend\<close> (EvaluationChat.tsx, lines 30-78) on the state of the component and
  of the page, up to the end of the handler. \<^verbatim>\<open>messages\<close> and
  \<^verbatim>\<open>onMessagesChange\<close> are the page's \<^verbatim>\<open>evaluationMessages\<close> and its setter;
  \<open>onPersistMessages\<close> is the optional callback. The handler sets the list with the
  user's message and awaits the request. While it waits, React renders and runs the effect
  (after \<open>render\<close> ms); the reply arrives \<open>latency\<close> ms after that. Both branches of the
  \<^verbatim>\<open>try\<close> then append an assistant message to the list the handler started from, set
  it, and hand it to the callback at once; the effect for this list runs only with the next
  render, after the handler has returned.
\<close>

definition handleSend ::
  "(message list \<Rightarrow> role_page \<Rightarrow> role_page) option \<Rightarrow> nat \<Rightarrow> nat \<Rightarrow> evaluate_outcome
     \<Rightarrow> chat_ui \<times> role_page \<Rightarrow> chat_ui \<times> role_page" where
  "handleSend onPersistMessages render latency outcome s =
     (let ui = fst s; st = snd s in
      if trim (chat_input ui) = [] \<or> isLoading ui then (ui, st)
      else
        let userMessage = \<lparr>msg_role = User, content = trim (chat_input ui)\<rparr>;
            messagesWithUser = evaluationMessages st @ [userMessage];
            st1 = st\<lparr>evaluationMessages := messagesWithUser\<rparr>;
            ui1 = ui\<lparr>chat_input := [], isLoading := True\<rparr>;
            st2 = rerender render st1;
            st3 = elapse latency st2;
            assistantMessage = \<lparr>msg_role = Assistant, content = replyContent outcome\<rparr>;
            newMessages = messagesWithUser @ [assistantMessage];
            st4 = st3\<lparr>evaluationMessages := newMessages\<rparr>;
            st5 = (case onPersistMessages of
                     None \<Rightarrow> st4
                   | Some persist \<Rightarrow> persist newMessages st4)
        in (ui1\<lparr>isLoading := False\<rparr>, st5))"


section \<open>Properties\<close>

subsection \<open>The card colour\<close>

text \<open>
  C10. The board colour class of a candidate depends only on \<open>sent_to_client\<close>,
  \<open>not_pushing_forward\<close> and \<open>column\<close>: two candidates that agree on these three get
  the same class, and changing the stored colour changes nothing. The class is the green one
  when \<open>sent_to_client\<close> is true, also when \<open>not_pushing_forward\<close> is true as well;
  the red one when only \<open>not_pushing_forward\<close> is true; otherwise slate for outreach,
  amber for follow-up, blue for evaluation, and the slate of outreach for a missing column
  and for every other value.
\<close>

theorem C10_color_class:
  "(sent_to_client a = sent_to_client b \<and> not_pushing_forward a = not_pushing_forward b
      \<and> cand_column a = cand_column b \<longrightarrow> getColorClass a = getColorClass b)
   \<and> getColorClass (c\<lparr>cand_color := k\<rparr>) = getColorClass c
   \<and> (sent_to_client c = Some True \<longrightarrow> getColorClass c = ''bg-green-100 border-green-500'')
   \<and> (\<not> truthy_flag (sent_to_client c) \<and> \<not> truthy_flag (not_pushing_forward c)
        \<and> cand_column c \<notin> {Some ''follow-up'', Some ''evaluation''}
      \<longrightarrow> getColorClass c = getColorClass (c\<lparr>cand_column := Some ''outreach''\<rparr>))
   \<and> getColorClass c =
       (if sent_to_client c = Some True then ''bg-green-100 border-green-500''
        else if not_pushing_forward c = Some True then ''bg-red-100 border-red-500''
        else if cand_column c = Some ''follow-up'' then ''bg-amber-100 border-amber-500''
        else if cand_column c = Some ''evaluation'' then ''bg-blue-100 border-blue-500''
        else ''bg-slate-100 border-slate-400'')
   \<and> (sent_to_client c = Some True \<and> not_pushing_forward c = Some True
      \<longrightarrow> getColorClass c = ''bg-green-100 border-green-500''
          \<and> getColorClass c \<noteq> ''bg-red-100 border-red-500'')
   \<and> (sent_to_client c \<noteq> Some True \<and> not_pushing_forward c = Some True
      \<longrightarrow> getColorClass c = ''bg-red-100 border-red-500'')
   \<and> (sent_to_client c \<noteq> Some True \<and> not_pushing_forward c \<noteq> Some True
        \<and> cand_column c = Some ''outreach''
      \<longrightarrow> getColorClass c = ''bg-slate-100 border-slate-400'')
   \<and> (sent_to_client c \<noteq> Some True \<and> not_pushing_forward c \<noteq> Some True
        \<and> cand_column c = Some ''follow-up''
      \<longrightarrow> getColorClass c = ''bg-amber-100 border-amber-500'')
   \<and> (sent_to_client c \<noteq> Some True \<and> not_pushing_forward c \<noteq> Some True
        \<and> cand_column c = Some ''evaluation''
      \<longrightarrow> getColorClass c = ''bg-blue-100 border-blue-500'')
   \<and> (sent_to_client c \<noteq> Some True \<and> not_pushing_forward c \<noteq> Some True
        \<and> cand_column c \<notin> {Some ''outreach'', Some ''follow-up'', Some ''evaluation''}
      \<longrightarrow> getColorClass c = ''bg-slate-100 border-slate-400'')"
proof -
  have t: "truthy_flag x \<longleftrightarrow> x = Some True" for x
    by (cases x) auto
  show ?thesis
    by (simp add: getColorClass_def t)
qed

text \<open>
  C10, witness: both flags give green; a flag \<open>not_pushing_forward\<close> alone gives red;
  an unknown and a missing column give the slate of outreach; evaluation gives blue. The
  stored colours differ from what is shown.
\<close>

theorem C10_color_class_witness:
  "getColorClass \<lparr>cand_id = ''c1'', cand_name = Some ''Ann'', cand_column = Some ''evaluation'',
       cand_color = Some ''amber-solid'', sent_to_client = Some True,
       not_pushing_forward = Some True\<rparr> = ''bg-green-100 border-green-500''
   \<and> getColorClass \<lparr>cand_id = ''c2'', cand_name = None, cand_column = Some ''archived'',
       cand_color = Some ''red'', sent_to_client = None, not_pushing_forward = Some False\<rparr>
     = ''bg-slate-100 border-slate-400''
   \<and> getColorClass \<lparr>cand_id = ''c3'', cand_name = Some ''Cy'', cand_column = Some ''follow-up'',
       cand_color = Some ''amber-solid'', sent_to_client = Some False,
       not_pushing_forward = Some True\<rparr> = ''bg-red-100 border-red-500''
   \<and> getColorClass \<lparr>cand_id = ''c4'', cand_name = Some ''Di'', cand_column = None,
       cand_color = Some ''green'', sent_to_client = None, not_pushing_forward = None\<rparr>
     = ''bg-slate-100 border-slate-400''
   \<and> getColorClass \<lparr>cand_id = ''c5'', cand_name = Some ''Ed'', cand_column = Some ''evaluation'',
       cand_color = None, sent_to_client = None, not_pushing_forward = None\<rparr>
     = ''bg-blue-100 border-blue-500''"
proof -
  let ?c1 = "\<lparr>cand_id = ''c1'', cand_name = Some ''Ann'', cand_column = Some ''evaluation'',
       cand_color = Some ''amber-solid'', sent_to_client = Some True,
       not_pushing_forward = Some True\<rparr>"
  let ?c2 = "\<lparr>cand_id = ''c2'', cand_name = None, cand_column = Some ''archived'',
       cand_color = Some ''red'', sent_to_client = None, not_pushing_forward = Some False\<rparr>"
  let ?c3 = "\<lparr>cand_id = ''c3'', cand_name = Some ''Cy'', cand_column = Some ''follow-up'',
       cand_color = Some ''amber-solid'', sent_to_client = Some False,
       not_pushing_forward = Some True\<rparr>"
  let ?c4 = "\<lparr>cand_id = ''c4'', cand_name = Some ''Di'', cand_column = None,
       cand_color = Some ''green'', sent_to_client = None, not_pushing_forward = None\<rparr>"
  let ?c5 = "\<lparr>cand_id = ''c5'', cand_name = Some ''Ed'', cand_column = Some ''evaluation'',
       cand_color = None, sent_to_client = None, not_pushing_forward = None\<rparr>"
  have 1: "getColorClass ?c1 = ''bg-green-100 border-green-500''"
    using C10_color_class [where a = ?c1 and b = ?c1 and c = ?c1 and k = None,
        THEN conjunct2, THEN conjunct2, THEN conjunct2, THEN conjunct2, THEN conjunct1]
    by simp
  have 2: "getColorClass ?c2 = ''bg-slate-100 border-slate-400''"
    using C10_color_class [where a = ?c2 and b = ?c2 and c = ?c2 and k = None,
        THEN conjunct2, THEN conjunct2, THEN conjunct2, THEN conjunct2, THEN conjunct1]
    by simp
  have 3: "getColorClass ?c3 = ''bg-red-100 border-red-500''"
    using C10_color_class [where a = ?c3 and b = ?c3 and c = ?c3 and k = None,
        THEN conjunct2, THEN conjunct2, THEN conjunct2, THEN conjunct2, THEN conjunct1]
    by simp
  have 4: "getColorClass ?c4 = ''bg-slate-100 border-slate-400''"
    using C10_color_class [where a = ?c4 and b = ?c4 and c = ?c4 and k = None,
        THEN conjunct2, THEN conjunct2, THEN conjunct2, THEN conjunct2, THEN conjunct1]
    by simp
  have 5: "getColorClass ?c5 = ''bg-blue-100 border-blue-500''"
    using C10_color_class [where a = ?c5 and b = ?c5 and c = ?c5 and k = None,
        THEN conjunct2, THEN conjunct2, THEN conjunct2, THEN conjunct2, THEN conjunct1]
    by simp
  from 1 2 3 4 5 show ?thesis by simp
qed

subsection \<open>Collision detection and the end of a drag\<close>

lemma find_filter_conj: "find P (filter Q xs) = find (\<lambda>x. Q x \<and> P x) xs"
  by (induction xs) auto

lemma find_Some_first:
  "x \<in> set xs \<Longrightarrow> P x \<Longrightarrow> \<exists>y. find P xs = Some y \<and> P y \<and> y \<in> set xs"
  by (induction xs) auto

lemma kanban_promoted:
  assumes ne: "allCollisions args \<noteq> []"
    and origin: "g (active_id args) = Some origin" "origin \<noteq> []"
    and f: "find (\<lambda>c. isColumnId (collision_id c) \<and> collision_id c \<noteq> origin) (allCollisions args) = Some target"
  shows "createKanbanCollisionDetection g args
           = target # filter (\<lambda>c. \<not> isColumnId (collision_id c)) (allCollisions args)"
proof -
  from f have "target \<in> set (allCollisions args)" "isColumnId (collision_id target)"
    by (auto simp: find_Some_iff)
  then have ex: "list_ex (\<lambda>c. isColumnId (collision_id c)) (allCollisions args)"
    by (auto simp: list_ex_iff)
  show ?thesis
    using ne origin ex f
    by (simp add: createKanbanCollisionDetection_def find_filter_conj Let_def)
qed

lemma kanban_not_promoted:
  assumes "\<not> (truthy_str (g (active_id args))
        \<and> (\<exists>c \<in> set (allCollisions args). isColumnId (collision_id c) \<and> Some (collision_id c) \<noteq> g (active_id args)))"
  shows "createKanbanCollisionDetection g args = allCollisions args"
proof (cases "find (\<lambda>c. isColumnId (collision_id c) \<and> Some (collision_id c) \<noteq> g (active_id args)) (allCollisions args)")
  case None
  then show ?thesis
    by (simp add: createKanbanCollisionDetection_def find_filter_conj Let_def)
next
  case (Some t)
  then have "t \<in> set (allCollisions args)" "isColumnId (collision_id t)" "Some (collision_id t) \<noteq> g (active_id args)"
    by (auto simp: find_Some_iff)
  with assms have "\<not> truthy_str (g (active_id args))" by blast
  then show ?thesis
    by (simp add: createKanbanCollisionDetection_def Let_def)
qed

lemma find_Some_mem: "find P xs = Some y \<Longrightarrow> y \<in> set xs \<and> P y"
  by (induction xs) (auto split: if_splits)

lemma kanban_subset: "set (createKanbanCollisionDetection g args) \<subseteq> set (allCollisions args)"
  by (auto simp: createKanbanCollisionDetection_def Let_def find_filter_conj
      split: option.splits dest: find_Some_mem)

lemma kanban_empty_iff: "createKanbanCollisionDetection g args = [] \<longleftrightarrow> allCollisions args = []"
  by (auto simp: createKanbanCollisionDetection_def Let_def split: option.splits)

text \<open>
  C1 (as amended). In a drag frame whose collision list is not empty, when the origin
  column of the dragged candidate is known (a non-empty string) and the list holds a
  column-level target other than the origin column, the resolver returns the first such
  target followed by the card-level targets of the list, in their order. The head of the
  result is therefore a column other than the origin; it is the target \<open>t\<close> itself
  when \<open>t\<close> is the only such column in the list (an empty destination column under the
  dragged card).
\<close>

theorem C1_cross_column_promotion:
  assumes "allCollisions args \<noteq> []"
    and "g (active_id args) = Some origin" and "origin \<noteq> []"
    and "t \<in> set (allCollisions args)" and "isColumnId (collision_id t)"
    and "collision_id t \<noteq> origin"
  shows "\<exists>target.
      find (\<lambda>c. isColumnId (collision_id c) \<and> collision_id c \<noteq> origin) (allCollisions args)
        = Some target
    \<and> isColumnId (collision_id target) \<and> collision_id target \<noteq> origin
    \<and> createKanbanCollisionDetection g args
        = target # filter (\<lambda>c. \<not> isColumnId (collision_id c)) (allCollisions args)
    \<and> hd (createKanbanCollisionDetection g args) = target
    \<and> ((\<forall>c \<in> set (allCollisions args).
           isColumnId (collision_id c) \<and> collision_id c \<noteq> origin \<longrightarrow> c = t) \<longrightarrow> target = t)"
proof -
  let ?P = "\<lambda>c. isColumnId (collision_id c) \<and> collision_id c \<noteq> origin"
  from assms(4-6) obtain target where tg: "find ?P (allCollisions args) = Some target"
    "?P target" "target \<in> set (allCollisions args)"
    using find_Some_first [of t "allCollisions args" ?P] by blast
  have "createKanbanCollisionDetection g args
        = target # filter (\<lambda>c. \<not> isColumnId (collision_id c)) (allCollisions args)"
    using assms(1-3) tg(1) by (rule kanban_promoted)
  with tg show ?thesis by auto
qed

text \<open>
  C1, witness: a card of the outreach column dragged over the empty follow-up column
  collides with itself and with the column; the column comes first.
\<close>

theorem C1_cross_column_promotion_witness:
  "createKanbanCollisionDetection
     (getActiveColumn [\<lparr>cand_id = ''c1'', cand_name = Some ''Ann'', cand_column = Some ''outreach'',
         cand_color = None, sent_to_client = None, not_pushing_forward = None\<rparr>])
     \<lparr>active_id = ''c1'',
      rectIntersection = [\<lparr>collision_id = ''c1'', collision_data = 90\<rparr>,
                          \<lparr>collision_id = ''follow-up'', collision_data = 40\<rparr>],
      pointerWithin = [], closestCorners = []\<rparr>
   = [\<lparr>collision_id = ''follow-up'', collision_data = 40\<rparr>,
      \<lparr>collision_id = ''c1'', collision_data = 90\<rparr>]"
proof -
  let ?g = "getActiveColumn [\<lparr>cand_id = ''c1'', cand_name = Some ''Ann'',
         cand_column = Some ''outreach'',
         cand_color = None, sent_to_client = None, not_pushing_forward = None\<rparr>]"
  let ?t = "\<lparr>collision_id = ''follow-up'', collision_data = 40\<rparr>"
  let ?A = "\<lparr>active_id = ''c1'',
      rectIntersection = [\<lparr>collision_id = ''c1'', collision_data = 90\<rparr>, ?t],
      pointerWithin = [], closestCorners = []\<rparr>"
  have all: "allCollisions ?A = [\<lparr>collision_id = ''c1'', collision_data = 90\<rparr>, ?t]"
    by (simp add: allCollisions_def)
  have h1: "allCollisions ?A \<noteq> []" by (simp add: all)
  have h2: "?g (active_id ?A) = Some ''outreach''" by (simp add: getActiveColumn_def)
  have h3: "''outreach'' \<noteq> []" by simp
  have h4: "?t \<in> set (allCollisions ?A)" by (simp add: all)
  have h5: "isColumnId (collision_id ?t)" by (simp add: isColumnId_def COLUMN_IDS_def)
  have h6: "collision_id ?t \<noteq> ''outreach''" by simp
  from C1_cross_column_promotion [where g = ?g and args = ?A and origin = "''outreach''"
      and t = ?t, OF h1 h2 h3 h4 h5 h6]
  show ?thesis by (simp add: all isColumnId_def COLUMN_IDS_def)
qed

text \<open>
  C1, counterexample to the claim as stated: the dragged candidate has no column, so
  that the follow-up column in the collision list differs from its origin, and the
  resolver leaves the list as it is, with the card in front.
\<close>

theorem C1_missing_origin_counterexample:
  "allCollisions \<lparr>active_id = ''c1'',
      rectIntersection = [\<lparr>collision_id = ''c2'', collision_data = 90\<rparr>,
                          \<lparr>collision_id = ''follow-up'', collision_data = 40\<rparr>],
      pointerWithin = [], closestCorners = []\<rparr> \<noteq> []
   \<and> isColumnId ''follow-up''
   \<and> Some ''follow-up'' \<noteq> getActiveColumn
        [\<lparr>cand_id = ''c1'', cand_name = Some ''Ann'', cand_column = None,
          cand_color = None, sent_to_client = None, not_pushing_forward = None\<rparr>] ''c1''
   \<and> createKanbanCollisionDetection
     (getActiveColumn [\<lparr>cand_id = ''c1'', cand_name = Some ''Ann'', cand_column = None,
         cand_color = None, sent_to_client = None, not_pushing_forward = None\<rparr>])
     \<lparr>active_id = ''c1'',
      rectIntersection = [\<lparr>collision_id = ''c2'', collision_data = 90\<rparr>,
                          \<lparr>collision_id = ''follow-up'', collision_data = 40\<rparr>],
      pointerWithin = [], closestCorners = []\<rparr>
   = [\<lparr>collision_id = ''c2'', collision_data = 90\<rparr>,
      \<lparr>collision_id = ''follow-up'', collision_data = 40\<rparr>]"
  by (simp add: createKanbanCollisionDetection_def allCollisions_def getActiveColumn_def
      isColumnId_def COLUMN_IDS_def)

text \<open>
  C3 (as amended). Let \<open>tier\<close> be the rectangle-intersection collisions when there
  are any, otherwise the pointer-within collisions when there are any, otherwise the
  closest-corners ranking. Every target the resolver returns comes from \<open>tier\<close>; the
  result is \<open>tier\<close> itself unless the origin column is known and \<open>tier\<close> holds a
  column-level target other than the origin; and the result is empty exactly when all three
  tiers are empty.
\<close>

theorem C3_tiers:
  assumes "rectIntersection args \<noteq> [] \<longrightarrow> tier = rectIntersection args"
    and "rectIntersection args = [] \<and> pointerWithin args \<noteq> [] \<longrightarrow> tier = pointerWithin args"
    and "rectIntersection args = [] \<and> pointerWithin args = [] \<longrightarrow> tier = closestCorners args"
  shows "set (createKanbanCollisionDetection g args) \<subseteq> set tier
    \<and> (\<not> (truthy_str (g (active_id args))
           \<and> (\<exists>c \<in> set tier. isColumnId (collision_id c)
                  \<and> Some (collision_id c) \<noteq> g (active_id args)))
        \<longrightarrow> createKanbanCollisionDetection g args = tier)
    \<and> (createKanbanCollisionDetection g args = []
        \<longleftrightarrow> rectIntersection args = [] \<and> pointerWithin args = [] \<and> closestCorners args = [])"
proof -
  from assms have tier: "tier = allCollisions args"
    by (auto simp: allCollisions_def)
  have e: "allCollisions args = [] \<longleftrightarrow>
      rectIntersection args = [] \<and> pointerWithin args = [] \<and> closestCorners args = []"
    by (auto simp: allCollisions_def)
  show ?thesis
    unfolding tier using kanban_subset [of g args] kanban_not_promoted [of g args]
      kanban_empty_iff [of g args] e by blast
qed

text \<open>
  C3, witness: no rectangle intersection, so the pointer-within collisions are returned;
  the only column among them is the origin column.
\<close>

theorem C3_tiers_witness:
  "createKanbanCollisionDetection (getActiveColumn [\<lparr>cand_id = ''c1'', cand_name = Some ''Ann'',
         cand_column = Some ''outreach'', cand_color = None, sent_to_client = None,
         not_pushing_forward = None\<rparr>])
     \<lparr>active_id = ''c1'', rectIntersection = [],
      pointerWithin = [\<lparr>collision_id = ''c2'', collision_data = 7\<rparr>,
                       \<lparr>collision_id = ''outreach'', collision_data = 3\<rparr>],
      closestCorners = [\<lparr>collision_id = ''evaluation'', collision_data = 1\<rparr>]\<rparr>
   = [\<lparr>collision_id = ''c2'', collision_data = 7\<rparr>,
      \<lparr>collision_id = ''outreach'', collision_data = 3\<rparr>]"
  using C3_tiers [where g = "getActiveColumn [\<lparr>cand_id = ''c1'', cand_name = Some ''Ann'',
         cand_column = Some ''outreach'', cand_color = None, sent_to_client = None,
         not_pushing_forward = None\<rparr>]"
      and tier = "[\<lparr>collision_id = ''c2'', collision_data = 7\<rparr>,
                   \<lparr>collision_id = ''outreach'', collision_data = 3\<rparr>]"
      and args = "\<lparr>active_id = ''c1'', rectIntersection = [],
      pointerWithin = [\<lparr>collision_id = ''c2'', collision_data = 7\<rparr>,
                       \<lparr>collision_id = ''outreach'', collision_data = 3\<rparr>],
      closestCorners = [\<lparr>collision_id = ''evaluation'', collision_data = 1\<rparr>]\<rparr>"]
  by (simp add: isColumnId_def COLUMN_IDS_def getActiveColumn_def)

text \<open>
  C3, counterexample to the claim as stated: the rectangle-intersection collisions are
  not empty, and the resolver returns another list: the follow-up column is moved to the
  front and the origin column is dropped.
\<close>

theorem C3_promotion_counterexample:
  "rectIntersection \<lparr>active_id = ''c1'',
      rectIntersection = [\<lparr>collision_id = ''outreach'', collision_data = 90\<rparr>,
                          \<lparr>collision_id = ''follow-up'', collision_data = 40\<rparr>,
                          \<lparr>collision_id = ''c1'', collision_data = 20\<rparr>],
      pointerWithin = [], closestCorners = []\<rparr> \<noteq> []
   \<and> createKanbanCollisionDetection (getActiveColumn [\<lparr>cand_id = ''c1'', cand_name = Some ''Ann'',
         cand_column = Some ''outreach'', cand_color = None, sent_to_client = None,
         not_pushing_forward = None\<rparr>])
     \<lparr>active_id = ''c1'',
      rectIntersection = [\<lparr>collision_id = ''outreach'', collision_data = 90\<rparr>,
                          \<lparr>collision_id = ''follow-up'', collision_data = 40\<rparr>,
                          \<lparr>collision_id = ''c1'', collision_data = 20\<rparr>],
      pointerWithin = [], closestCorners = []\<rparr>
   = [\<lparr>collision_id = ''follow-up'', collision_data = 40\<rparr>,
      \<lparr>collision_id = ''c1'', collision_data = 20\<rparr>]
   \<and> createKanbanCollisionDetection (getActiveColumn [\<lparr>cand_id = ''c1'', cand_name = Some ''Ann'',
         cand_column = Some ''outreach'', cand_color = None, sent_to_client = None,
         not_pushing_forward = None\<rparr>])
     \<lparr>active_id = ''c1'',
      rectIntersection = [\<lparr>collision_id = ''outreach'', collision_data = 90\<rparr>,
                          \<lparr>collision_id = ''follow-up'', collision_data = 40\<rparr>,
                          \<lparr>collision_id = ''c1'', collision_data = 20\<rparr>],
      pointerWithin = [], closestCorners = []\<rparr>
   \<noteq> rectIntersection \<lparr>active_id = ''c1'',
      rectIntersection = [\<lparr>collision_id = ''outreach'', collision_data = 90\<rparr>,
                          \<lparr>collision_id = ''follow-up'', collision_data = 40\<rparr>,
                          \<lparr>collision_id = ''c1'', collision_data = 20\<rparr>],
      pointerWithin = [], closestCorners = []\<rparr>"
  by (simp add: createKanbanCollisionDetection_def allCollisions_def getActiveColumn_def
      isColumnId_def COLUMN_IDS_def)

text \<open>
  C2. When a drop resolves to the column the dragged candidate is already in, the handler
  only clears the drag overlay (\<open>setActiveCandidate(null)\<close>): no request is sent, so no
  colour is computed for one, and the candidate list is not refreshed, whether or not a
  request would have succeeded.
\<close>

theorem C2_same_column_noop:
  assumes "over event = Some overId"
    and "resolveNewColumn candidates overId = Some newColumn"
    and "find (\<lambda>c. cand_id c = active event) candidates = Some candidate"
    and "cand_column candidate = Some newColumn"
  shows "handleDragEnd put_ok roleId candidates event = [SetActiveCandidate None]
    \<and> \<not> list_ex is_put (handleDragEnd put_ok roleId candidates event)
    \<and> OnUpdate \<notin> set (handleDragEnd put_ok roleId candidates event)"
  using assms by (simp add: handleDragEnd_def)

text \<open>
  C2, witness: a follow-up card dropped on another card of the follow-up column.
\<close>

theorem C2_same_column_noop_witness:
  "handleDragEnd (\<lambda>r. True) ''r1''
     [\<lparr>cand_id = ''c1'', cand_name = Some ''Ann'', cand_column = Some ''follow-up'',
        cand_color = Some ''amber-solid'', sent_to_client = None, not_pushing_forward = None\<rparr>,
      \<lparr>cand_id = ''c2'', cand_name = Some ''Bob'', cand_column = Some ''follow-up'',
        cand_color = Some ''amber-solid'', sent_to_client = None, not_pushing_forward = None\<rparr>]
     \<lparr>active = ''c1'', over = Some ''c2''\<rparr>
   = [SetActiveCandidate None]"
proof -
  let ?c1 = "\<lparr>cand_id = ''c1'', cand_name = Some ''Ann'', cand_column = Some ''follow-up'',
        cand_color = Some ''amber-solid'', sent_to_client = None, not_pushing_forward = None\<rparr>"
  let ?cs = "[?c1,
      \<lparr>cand_id = ''c2'', cand_name = Some ''Bob'', cand_column = Some ''follow-up'',
        cand_color = Some ''amber-solid'', sent_to_client = None, not_pushing_forward = None\<rparr>]"
  let ?e = "\<lparr>active = ''c1'', over = Some ''c2''\<rparr>"
  have h1: "over ?e = Some ''c2''" by simp
  have h2: "resolveNewColumn ?cs ''c2'' = Some ''follow-up''"
    by (simp add: resolveNewColumn_def)
  have h3: "find (\<lambda>c. cand_id c = active ?e) ?cs = Some ?c1" by simp
  have h4: "cand_column ?c1 = Some ''follow-up''" by simp
  from C2_same_column_noop [where put_ok = "\<lambda>r. True" and roleId = "''r1''", OF h1 h2 h3 h4]
  show ?thesis by simp
qed

subsection \<open>The interview badge\<close>

text \<open>
  C4. For a candidate whose interview has been fetched, the badge of the selection grid
  is on exactly when \<open>interview_completed\<close> is the boolean \<open>true\<close> itself, or the
  transcription is a non-empty text, or the summary is a non-empty text. A candidate
  without a fetched interview never has the badge.
\<close>

theorem C4_interview_completion:
  "(candidateInterviews (cand_id cand) = Some i \<longrightarrow>
      (hasCompletedInterview candidateInterviews cand \<longleftrightarrow>
         interview_completed i = JBool True
         \<or> (\<exists>t. transcription i = Some t \<and> t \<noteq> [])
         \<or> (\<exists>s. summary i = Some s \<and> s \<noteq> [])))
   \<and> (candidateInterviews (cand_id cand) = None \<longrightarrow>
        \<not> hasCompletedInterview candidateInterviews cand)"
proof -
  have t: "truthy_str x \<longleftrightarrow> (\<exists>s. x = Some s \<and> s \<noteq> [])" for x
    by (cases x) auto
  show ?thesis
    by (auto simp: hasCompletedInterview_def t)
qed

text \<open>
  C4, witness: an interview whose \<open>interview_completed\<close> is the string "true" and whose
  transcription is empty counts as completed through its summary; one whose
  \<open>interview_completed\<close> is the number 1 and that has no text does not; a candidate
  with no entry does not.
\<close>

theorem C4_interview_completion_witness:
  "hasCompletedInterview
     [''c1'' \<mapsto> \<lparr>interview_completed = JString ''true'', transcription = Some [],
                 summary = Some ''Strong candidate'', candidate_responses = None\<rparr>,
      ''c3'' \<mapsto> \<lparr>interview_completed = JNumber 1, transcription = None,
                 summary = Some [], candidate_responses = None\<rparr>]
     \<lparr>cand_id = ''c1'', cand_name = Some ''Ann'', cand_column = Some ''evaluation'',
      cand_color = None, sent_to_client = None, not_pushing_forward = None\<rparr>
   \<and> \<not> hasCompletedInterview
     [''c1'' \<mapsto> \<lparr>interview_completed = JString ''true'', transcription = Some [],
                 summary = Some ''Strong candidate'', candidate_responses = None\<rparr>,
      ''c3'' \<mapsto> \<lparr>interview_completed = JNumber 1, transcription = None,
                 summary = Some [], candidate_responses = None\<rparr>]
     \<lparr>cand_id = ''c2'', cand_name = Some ''Bob'', cand_column = Some ''evaluation'',
      cand_color = None, sent_to_client = None, not_pushing_forward = None\<rparr>
   \<and> \<not> hasCompletedInterview
     [''c1'' \<mapsto> \<lparr>interview_completed = JString ''true'', transcription = Some [],
                 summary = Some ''Strong candidate'', candidate_responses = None\<rparr>,
      ''c3'' \<mapsto> \<lparr>interview_completed = JNumber 1, transcription = None,
                 summary = Some [], candidate_responses = None\<rparr>]
     \<lparr>cand_id = ''c3'', cand_name = Some ''Cy'', cand_column = Some ''evaluation'',
      cand_color = None, sent_to_client = None, not_pushing_forward = None\<rparr>"
proof -
  let ?i1 = "\<lparr>interview_completed = JString ''true'', transcription = Some [],
                 summary = Some ''Strong candidate'', candidate_responses = None\<rparr>"
  let ?i3 = "\<lparr>interview_completed = JNumber 1, transcription = None,
                 summary = Some [], candidate_responses = None\<rparr>"
  let ?m = "[''c1'' \<mapsto> ?i1, ''c3'' \<mapsto> ?i3]"
  let ?c1 = "\<lparr>cand_id = ''c1'', cand_name = Some ''Ann'', cand_column = Some ''evaluation'',
      cand_color = None, sent_to_client = None, not_pushing_forward = None\<rparr>"
  let ?c2 = "\<lparr>cand_id = ''c2'', cand_name = Some ''Bob'', cand_column = Some ''evaluation'',
      cand_color = None, sent_to_client = None, not_pushing_forward = None\<rparr>"
  let ?c3 = "\<lparr>cand_id = ''c3'', cand_name = Some ''Cy'', cand_column = Some ''evaluation'',
      cand_color = None, sent_to_client = None, not_pushing_forward = None\<rparr>"
  have 1: "hasCompletedInterview ?m ?c1"
    using C4_interview_completion [where candidateInterviews = ?m and cand = ?c1 and i = ?i1]
    by simp
  have 2: "\<not> hasCompletedInterview ?m ?c2"
    using C4_interview_completion [where candidateInterviews = ?m and cand = ?c2 and i = ?i1]
    by simp
  have 3: "\<not> hasCompletedInterview ?m ?c3"
    using C4_interview_completion [where candidateInterviews = ?m and cand = ?c3 and i = ?i3]
    by simp
  from 1 2 3 show ?thesis by blast
qed

subsection \<open>The checklist of required information\<close>

lemma checklist_view_order:
  "map rf_field (requiredFieldsView (Some fs) fetched) = fs"
  by (cases fetched)
    (simp_all add: requiredFieldsView_def initRequiredFields_def updateRequiredFields_def comp_def)

lemma checklist_view_entry:
  assumes "candidate_responses fetched = Some responses" and "i < length fs"
  shows "requiredFieldsView (Some fs) (Some fetched) ! i
       = \<lparr>rf_field = fs ! i,
          rf_collected = truthy_property (get_property responses (fs ! i)),
          rf_value = (if truthy_property (get_property responses (fs ! i))
                      then get_property responses (fs ! i) else Absent)\<rparr>"
  using assms
  by (simp add: requiredFieldsView_def initRequiredFields_def updateRequiredFields_def)

lemma checklist_view_own_names:
  assumes "candidate_responses fetched = Some responses" and "i < length fs"
    and "fs ! i \<notin> set Object_prototype_keys"
  shows "(rf_collected (requiredFieldsView (Some fs) (Some fetched) ! i)
            \<longleftrightarrow> (\<exists>v. responses (fs ! i) = Some v \<and> v \<noteq> []))
    \<and> (rf_collected (requiredFieldsView (Some fs) (Some fetched) ! i) \<longrightarrow>
          (\<exists>v. responses (fs ! i) = Some v
             \<and> rf_value (requiredFieldsView (Some fs) (Some fetched) ! i) = Own v))
    \<and> (responses (fs ! i) = None \<or> responses (fs ! i) = Some [] \<longrightarrow>
          \<not> rf_collected (requiredFieldsView (Some fs) (Some fetched) ! i)
          \<and> rf_value (requiredFieldsView (Some fs) (Some fetched) ! i) = Absent)"
  using assms(3)
  by (auto simp: checklist_view_entry [OF assms(1,2)] get_property_def split: option.splits)

text \<open>
  C7. The checklist holds one entry for each requirement field, in the order of the list
  (\<open>checklist_view_order\<close>), and for a field whose name is not a member of
  \<^verbatim>\<open>Object.prototype\<close> the entry is collected exactly when the response of that name
  exists and is not empty (\<open>checklist_view_own_names\<close>). For a field named
  \<^verbatim>\<open>constructor\<close> the code does otherwise: with no response of that name,
  \<^verbatim>\<open>responses['constructor']\<close> is the inherited function, and the entry is shown as
  collected, with that function as its value.
\<close>

theorem C7_inherited_field_collected:
  "requiredFieldsView (Some [''Expected salary'', ''constructor'', ''Notice period''])
     (Some \<lparr>interview_completed = JBool False, transcription = None, summary = None,
            candidate_responses = Some [''Expected salary'' \<mapsto> ''90k'']\<rparr>)
   = [\<lparr>rf_field = ''Expected salary'', rf_collected = True, rf_value = Own ''90k''\<rparr>,
      \<lparr>rf_field = ''constructor'', rf_collected = True, rf_value = Inherited ''constructor''\<rparr>,
      \<lparr>rf_field = ''Notice period'', rf_collected = False, rf_value = Absent\<rparr>]"
  by (simp add: requiredFieldsView_def initRequiredFields_def updateRequiredFields_def
      get_property_def Object_prototype_keys_def)

subsection \<open>Toggling a checklist item\<close>



subsection \<open>The display order\<close>


lemma mset_insert_by: "mset (insert_by cmp x ys) = add_mset x (mset ys)"
  by (induction ys) auto

lemma mset_array_sort: "mset (array_sort cmp xs) = mset xs"
  by (induction xs) (auto simp: array_sort_def mset_insert_by)

lemma set_insert_by: "set (insert_by cmp x ys) = insert x (set ys)"
  by (induction ys) auto

lemma set_array_sort: "set (array_sort cmp xs) = set xs"
  by (induction xs) (auto simp: array_sort_def set_insert_by)

lemma sorted_insert_by:
  assumes total: "\<And>a b. a \<in> S \<Longrightarrow> b \<in> S \<Longrightarrow> cmp a b \<le> 0 \<or> cmp b a \<le> 0"
    and trans: "\<And>a b c. a \<in> S \<Longrightarrow> b \<in> S \<Longrightarrow> c \<in> S \<Longrightarrow>
                  cmp a b \<le> 0 \<Longrightarrow> cmp b c \<le> 0 \<Longrightarrow> cmp a c \<le> 0"
    and x: "x \<in> S"
  shows "set ys \<subseteq> S \<Longrightarrow> sorted_wrt (\<lambda>a b. cmp a b \<le> 0) ys \<Longrightarrow>
         sorted_wrt (\<lambda>a b. cmp a b \<le> 0) (insert_by cmp x ys)"
proof (induction ys)
  case Nil
  then show ?case by simp
next
  case (Cons y ys)
  from Cons.prems(1) have y: "y \<in> S" and ys: "set ys \<subseteq> S" by simp_all
  from Cons.prems(2) have head: "\<forall>z \<in> set ys. cmp y z \<le> 0"
    and tail: "sorted_wrt (\<lambda>a b. cmp a b \<le> 0) ys" by simp_all
  show ?case
  proof (cases "cmp x y \<le> 0")
    case True
    have "cmp x z \<le> 0" if z: "z \<in> set ys" for z
    proof -
      from z head have "cmp y z \<le> 0" by blast
      moreover from z ys have "z \<in> S" by blast
      ultimately show ?thesis using trans [OF x y _ True] by blast
    qed
    with True head tail show ?thesis by simp
  next
    case False
    with total [OF x y] have yx: "cmp y x \<le> 0" by blast
    from Cons.IH [OF ys tail] have "sorted_wrt (\<lambda>a b. cmp a b \<le> 0) (insert_by cmp x ys)" .
    with False yx head show ?thesis by (simp add: set_insert_by)
  qed
qed

lemma sorted_array_sort:
  assumes total: "\<And>a b. a \<in> S \<Longrightarrow> b \<in> S \<Longrightarrow> cmp a b \<le> 0 \<or> cmp b a \<le> 0"
    and trans: "\<And>a b c. a \<in> S \<Longrightarrow> b \<in> S \<Longrightarrow> c \<in> S \<Longrightarrow>
                  cmp a b \<le> 0 \<Longrightarrow> cmp b c \<le> 0 \<Longrightarrow> cmp a c \<le> 0"
  shows "set xs \<subseteq> S \<Longrightarrow> sorted_wrt (\<lambda>a b. cmp a b \<le> 0) (array_sort cmp xs)"
proof (induction xs)
  case Nil
  then show ?case by (simp add: array_sort_def)
next
  case (Cons x xs)
  have step: "array_sort cmp (x # xs) = insert_by cmp x (array_sort cmp xs)"
    by (simp add: array_sort_def)
  from Cons.prems have x: "x \<in> S" and xs: "set xs \<subseteq> S" by simp_all
  from xs have sub: "set (array_sort cmp xs) \<subseteq> S" by (simp add: set_array_sort)
  from Cons.IH [OF xs] have "sorted_wrt (\<lambda>a b. cmp a b \<le> 0) (array_sort cmp xs)" .
  with sub show ?case
    unfolding step using total trans x by (rule sorted_insert_by [rotated 3])
qed

lemma filter_insert_by:
  assumes "\<And>y. P x \<Longrightarrow> P y \<Longrightarrow> cmp x y \<le> 0"
  shows "filter P (insert_by cmp x ys) = (if P x then x # filter P ys else filter P ys)"
  using assms by (induction ys) auto

lemma filter_array_sort:
  assumes "\<And>x y. P x \<Longrightarrow> P y \<Longrightarrow> cmp x y \<le> 0"
  shows "filter P (array_sort cmp xs) = filter P xs"
proof (induction xs)
  case Nil
  then show ?case by (simp add: array_sort_def)
next
  case (Cons x xs)
  have "array_sort cmp (x # xs) = insert_by cmp x (array_sort cmp xs)"
    by (simp add: array_sort_def)
  with Cons filter_insert_by [of P x cmp "array_sort cmp xs"] assms show ?case by simp
qed

lemma columnOrder_own:
  assumes "or_str (cand_column c) ''outreach'' \<notin> set Object_prototype_keys"
  shows "columnOrder c =
     Rank (if \<not> truthy_str (cand_column c) \<or> cand_column c = Some ''outreach'' then 0
           else if cand_column c = Some ''follow-up'' then 1
           else if cand_column c = Some ''evaluation'' then 2
           else 3)"
proof (cases "cand_column c")
  case None
  then show ?thesis by (simp add: columnOrder_def COLUMN_ORDER_def)
next
  case (Some s)
  with assms show ?thesis
    by (cases "s = []") (simp_all add: columnOrder_def COLUMN_ORDER_def)
qed

lemma compare_own_le:
  assumes "columnOrder a = Rank m" and "columnOrder b = Rank n"
  shows "sort_value (compareCandidates lc a b) \<le> 0 \<longleftrightarrow>
     m < n \<or> (m = n \<and> lc (or_str (cand_name a) []) (or_str (cand_name b) []) \<le> 0)"
  using assms by (auto simp: compareCandidates_def)

lemma display_sort_own_columns:
  assumes lc: "consistent_comparator localeCompare"
    and own: "\<forall>c \<in> set candidates.
                or_str (cand_column c) ''outreach'' \<notin> set Object_prototype_keys"
  shows "mset (sortedCandidates localeCompare candidates) = mset candidates"
    and "sorted_wrt (\<lambda>a b. sort_value (compareCandidates localeCompare a b) \<le> 0)
           (sortedCandidates localeCompare candidates)"
    and "filter (\<lambda>c. cand_column c = col \<and> cand_name c = name)
           (sortedCandidates localeCompare candidates)
         = filter (\<lambda>c. cand_column c = col \<and> cand_name c = name) candidates"
proof -
  let ?cmp = "\<lambda>a b. sort_value (compareCandidates localeCompare a b)"
  let ?S = "{c. or_str (cand_column c) ''outreach'' \<notin> set Object_prototype_keys}"
  from lc have refl: "localeCompare x x = 0" for x
    unfolding consistent_comparator_def by blast
  from lc have tot: "localeCompare x y \<le> 0 \<or> localeCompare y x \<le> 0" for x y
    unfolding consistent_comparator_def by (metis not_le order_less_imp_le)
  from lc have tr: "localeCompare x y \<le> 0 \<Longrightarrow> localeCompare y z \<le> 0
      \<Longrightarrow> localeCompare x z \<le> 0" for x y z
    unfolding consistent_comparator_def by blast
  have rank: "\<exists>n. columnOrder c = Rank n" if "c \<in> ?S" for c
    using that columnOrder_own [of c] by blast
  show "mset (sortedCandidates localeCompare candidates) = mset candidates"
    by (simp add: sortedCandidates_def mset_array_sort)
  have total: "?cmp a b \<le> 0 \<or> ?cmp b a \<le> 0" if "a \<in> ?S" "b \<in> ?S" for a b
  proof -
    from rank that obtain m n where "columnOrder a = Rank m" "columnOrder b = Rank n"
      by blast
    then show ?thesis
      using tot [of "or_str (cand_name a) []" "or_str (cand_name b) []"]
      by (simp add: compare_own_le) linarith
  qed
  have trans: "?cmp a c \<le> 0"
    if "a \<in> ?S" "b \<in> ?S" "c \<in> ?S" "?cmp a b \<le> 0" "?cmp b c \<le> 0" for a b c
  proof -
    from rank that(1-3) obtain m n k where
      r: "columnOrder a = Rank m" "columnOrder b = Rank n" "columnOrder c = Rank k"
      by blast
    from that(4,5) show ?thesis
      unfolding compare_own_le [OF r(1,2)] compare_own_le [OF r(2,3)]
        compare_own_le [OF r(1,3)]
      using tr by (elim disjE conjE) auto
  qed
  from own have sub: "set candidates \<subseteq> ?S" by auto
  show "sorted_wrt (\<lambda>a b. sort_value (compareCandidates localeCompare a b) \<le> 0)
           (sortedCandidates localeCompare candidates)"
    unfolding sortedCandidates_def
    using total trans sub by (rule sorted_array_sort [of ?S ?cmp candidates])
  show "filter (\<lambda>c. cand_column c = col \<and> cand_name c = name)
           (sortedCandidates localeCompare candidates)
         = filter (\<lambda>c. cand_column c = col \<and> cand_name c = name) candidates"
    unfolding sortedCandidates_def
    by (rule filter_array_sort) (simp add: compareCandidates_def columnOrder_def refl)
qed

text \<open>
  C9. For candidates whose columns are not names of members of \<^verbatim>\<open>Object.prototype\<close>
  the displayed list is a rearrangement ordered by rank and name that keeps the order of
  equal candidates (\<open>display_sort_own_columns\<close>), with rank 0 for outreach and a missing
  column, 1 for follow-up, 2 for evaluation and 3 otherwise (\<open>columnOrder_own\<close>). For
  the unknown column \<^verbatim>\<open>toString\<close> the code does otherwise:
  \<^verbatim>\<open>COLUMN_ORDER['toString']\<close> is the inherited function, \<^verbatim>\<open>?? 3\<close> is not
  taken, and the comparison with a candidate of any other column is \<^verbatim>\<open>NaN\<close> in both
  directions, whereas the unknown column \<^verbatim>\<open>archived\<close> has rank 3 and comes after
  evaluation.
\<close>

theorem C9_inherited_column_rank:
  "columnOrder \<lparr>cand_id = ''c1'', cand_name = Some ''Ann'', cand_column = Some ''toString'',
       cand_color = None, sent_to_client = None, not_pushing_forward = None\<rparr>
     = Member ''toString''
   \<and> columnOrder \<lparr>cand_id = ''c2'', cand_name = Some ''Bob'', cand_column = Some ''archived'',
       cand_color = None, sent_to_client = None, not_pushing_forward = None\<rparr>
     = Rank 3
   \<and> compareCandidates code_unit_compare
       \<lparr>cand_id = ''c1'', cand_name = Some ''Ann'', cand_column = Some ''toString'',
         cand_color = None, sent_to_client = None, not_pushing_forward = None\<rparr>
       \<lparr>cand_id = ''c3'', cand_name = Some ''Cy'', cand_column = Some ''evaluation'',
         cand_color = None, sent_to_client = None, not_pushing_forward = None\<rparr>
     = NaN
   \<and> compareCandidates code_unit_compare
       \<lparr>cand_id = ''c3'', cand_name = Some ''Cy'', cand_column = Some ''evaluation'',
         cand_color = None, sent_to_client = None, not_pushing_forward = None\<rparr>
       \<lparr>cand_id = ''c1'', cand_name = Some ''Ann'', cand_column = Some ''toString'',
         cand_color = None, sent_to_client = None, not_pushing_forward = None\<rparr>
     = NaN
   \<and> compareCandidates code_unit_compare
       \<lparr>cand_id = ''c2'', cand_name = Some ''Bob'', cand_column = Some ''archived'',
         cand_color = None, sent_to_client = None, not_pushing_forward = None\<rparr>
       \<lparr>cand_id = ''c3'', cand_name = Some ''Cy'', cand_column = Some ''evaluation'',
         cand_color = None, sent_to_client = None, not_pushing_forward = None\<rparr>
     = Number 1"
  by (simp add: compareCandidates_def columnOrder_def COLUMN_ORDER_def
      Object_prototype_keys_def)

subsection \<open>Saving the evaluation chat\<close>



lemma elapse_clock: "clock (elapse d st) = clock st + d"
  by (simp add: elapse_def saveEvaluationChat_def split: option.splits prod.splits)

lemma elapse_role_id: "role_id (elapse d st) = role_id st"
  by (simp add: elapse_def saveEvaluationChat_def split: option.splits prod.splits)







lemma debounceEffect_fields:
  "timer (debounceEffect st)
     = (if truthy_str (role_id st) \<and> evaluationMessages st \<noteq> []
        then Some (clock st + 400, evaluationMessages st) else None)"
  "chat_puts (debounceEffect st) = chat_puts st"
  "clock (debounceEffect st) = clock st"
  "role_id (debounceEffect st) = role_id st"
  "evaluationMessages (debounceEffect st) = evaluationMessages st"
  by (simp_all add: debounceEffect_def Let_def)

lemma elapse_messages: "evaluationMessages (elapse d st) = evaluationMessages st"
  by (simp add: elapse_def saveEvaluationChat_def split: option.splits prod.splits)

lemma elapse_puts:
  assumes "truthy_str (role_id st)"
  shows "chat_puts (elapse d st) = chat_puts st @
     (case timer st of None \<Rightarrow> []
      | Some (due, old) \<Rightarrow> if due \<le> clock st + d then [old] else [])"
  using assms by (simp add: elapse_def saveEvaluationChat_def split: option.splits prod.splits)

lemma elapse_timer:
  "timer (elapse d st) =
     (case timer st of None \<Rightarrow> None
      | Some (due, old) \<Rightarrow> if due \<le> clock st + d then None else Some (due, old))"
  by (simp add: elapse_def saveEvaluationChat_def split: option.splits prod.splits)

text \<open>
  C6. The page is opened for a role that the backend returned, and the chat sends its
  requests to the id of that role. When the reply comes back for a message that was sent,
  the handler holds the former messages followed by the user's message and the reply, and
  a request with this whole list has been sent at the time the reply arrived, as the last
  request so far. It did not wait for a timeout: the only timeouts that fired since the send
  are one that was already pending and fell due before the first render, and the one for the
  list with the user's message when the reply took 400 ms or more; otherwise that timeout
  is still pending when the request goes out. The timeout for the new list is set by the
  next render only, due 400 ms after it; if the pending one falls due before that render,
  its request follows the immediate one.
\<close>

theorem C6_immediate_flush:
  assumes "truthy_str (role_id st)" and "trim (chat_input ui) \<noteq> []" and "\<not> isLoading ui"
    and "userMessage = \<lparr>msg_role = User, content = trim (chat_input ui)\<rparr>"
    and "assistantMessage
         = \<lparr>msg_role = Assistant, content = replyContent (Replied response detail)\<rparr>"
    and "st' = snd (handleSend (Some persistEvaluationChatNow) render latency
                    (Replied response detail) (ui, st))"
  shows "evaluationMessages st' = evaluationMessages st @ [userMessage, assistantMessage]
    \<and> chat_puts st' = chat_puts st
         @ (case timer st of None \<Rightarrow> []
            | Some (due, old) \<Rightarrow> if due \<le> clock st + render then [old] else [])
         @ (if 400 \<le> latency then [evaluationMessages st @ [userMessage]] else [])
         @ [evaluationMessages st @ [userMessage, assistantMessage]]
    \<and> clock st' = clock st + render + latency
    \<and> timer st' = (if 400 \<le> latency then None
                   else Some (clock st + render + 400, evaluationMessages st @ [userMessage]))
    \<and> timer (rerender r st')
       = Some (clock st' + r + 400, evaluationMessages st @ [userMessage, assistantMessage])
    \<and> chat_puts (rerender r st') = chat_puts st'
         @ (if latency < 400 \<and> 400 \<le> latency + r
            then [evaluationMessages st @ [userMessage]] else [])"
proof -
  let ?mwu = "evaluationMessages st @ [userMessage]"
  let ?new = "evaluationMessages st @ [userMessage, assistantMessage]"
  let ?st1 = "st\<lparr>evaluationMessages := ?mwu\<rparr>"
  let ?st2 = "rerender render ?st1"
  let ?st3 = "elapse latency ?st2"
  let ?st4 = "?st3\<lparr>evaluationMessages := ?new\<rparr>"
  have st': "st' = persistEvaluationChatNow ?new ?st4"
    using assms(2-6) by (simp add: handleSend_def Let_def)
  have role1: "truthy_str (role_id (elapse render ?st1))"
    using assms(1) by (simp add: elapse_role_id)
  have puts2: "chat_puts ?st2 = chat_puts st @
       (case timer st of None \<Rightarrow> []
        | Some (due, old) \<Rightarrow> if due \<le> clock st + render then [old] else [])"
    using assms(1)
    by (simp add: rerender_def debounceEffect_fields elapse_puts
        split: option.splits prod.splits)
  have timer2: "timer ?st2 = Some (clock st + render + 400, ?mwu)"
    using role1
    by (simp add: rerender_def debounceEffect_fields elapse_clock elapse_messages)
  have clock2: "clock ?st2 = clock st + render"
    by (simp add: rerender_def debounceEffect_fields elapse_clock)
  have role2: "truthy_str (role_id ?st2)"
    using assms(1) by (simp add: rerender_def debounceEffect_fields elapse_role_id)
  have puts3: "chat_puts ?st3 = chat_puts ?st2 @ (if 400 \<le> latency then [?mwu] else [])"
    using elapse_puts [OF role2, of latency] timer2 clock2 by simp
  have timer3: "timer ?st3 = (if 400 \<le> latency then None
                   else Some (clock st + render + 400, ?mwu))"
    using elapse_timer [of latency ?st2] timer2 clock2 by simp
  have clock3: "clock ?st3 = clock st + render + latency"
    using clock2 by (simp add: elapse_clock)
  have role3: "truthy_str (role_id ?st3)"
    using role2 by (simp add: elapse_role_id)
  have a: "evaluationMessages st' = ?new"
    unfolding st' by (simp add: persistEvaluationChatNow_def)
  have b: "chat_puts st' = chat_puts ?st3 @ [?new]"
    unfolding st' using role3 by (simp add: persistEvaluationChatNow_def)
  have c: "clock st' = clock st + render + latency"
    unfolding st' using clock3 by (simp add: persistEvaluationChatNow_def)
  have d: "timer st' = timer ?st3"
    unfolding st' by (simp add: persistEvaluationChatNow_def)
  have role': "truthy_str (role_id st')"
    unfolding st' using role3 by (simp add: persistEvaluationChatNow_def)
  have e: "timer (rerender r st') = Some (clock st' + r + 400, ?new)"
    using role' a
    by (simp add: rerender_def debounceEffect_fields elapse_clock elapse_messages
        elapse_role_id)
  have f: "chat_puts (rerender r st') = chat_puts st'
         @ (if latency < 400 \<and> 400 \<le> latency + r then [?mwu] else [])"
    using elapse_puts [OF role', of r] d timer3 c
    by (simp add: rerender_def debounceEffect_fields)
  from a b c d e f puts2 puts3 timer3 show ?thesis by simp
qed

text \<open>Without a role id, neither the timeouts nor the handler send anything.\<close>

lemma handleSend_without_role_id:
  assumes "\<not> truthy_str (role_id st)"
  shows "chat_puts (snd (handleSend (Some persistEvaluationChatNow) render latency outcome
           (ui, st))) = chat_puts st"
proof -
  have e: "chat_puts (elapse d s) = chat_puts s" if "\<not> truthy_str (role_id s)" for d s
    using that by (simp add: elapse_def saveEvaluationChat_def split: option.splits prod.splits)
  show ?thesis
    using assms
    by (simp add: handleSend_def Let_def persistEvaluationChatNow_def rerender_def
        debounceEffect_fields e elapse_role_id)
qed

text \<open>
  C6, witness: a question entered with a leading no-break space and a trailing space,
  rendered after 20 ms and answered 1500 ms later. The list with the question was saved by
  the debounce, the list with the reply is saved at 1520 ms, and no timeout is pending then.
\<close>

theorem C6_immediate_flush_witness:
  "snd (handleSend (Some persistEvaluationChatNow) 20 1500 (Replied (Some (utf16 ''Ann'')) None)
     (\<lparr>chat_input = 0x00A0 # utf16 ''Who? '', isLoading = False\<rparr>,
      \<lparr>role_id = Some ''r1'', evaluationMessages = [], clock = 0, timer = None,
       chat_puts = []\<rparr>))
   = \<lparr>role_id = Some ''r1'',
      evaluationMessages = [\<lparr>msg_role = User, content = utf16 ''Who?''\<rparr>,
                            \<lparr>msg_role = Assistant, content = utf16 ''Ann''\<rparr>],
      clock = 1520,
      timer = None,
      chat_puts = [[\<lparr>msg_role = User, content = utf16 ''Who?''\<rparr>],
                   [\<lparr>msg_role = User, content = utf16 ''Who?''\<rparr>,
                    \<lparr>msg_role = Assistant, content = utf16 ''Ann''\<rparr>]]\<rparr>"
proof -
  let ?ui = "\<lparr>chat_input = 0x00A0 # utf16 ''Who? '', isLoading = False\<rparr>"
  let ?st = "\<lparr>role_id = Some ''r1'', evaluationMessages = [], clock = 0, timer = None,
       chat_puts = []\<rparr>"
  let ?st' = "snd (handleSend (Some persistEvaluationChatNow) 20 1500
     (Replied (Some (utf16 ''Ann'')) None) (?ui, ?st))"
  have tr: "trim (chat_input ?ui) = utf16 ''Who?''"
    by (simp add: trim_def isWhitespace_def utf16_def)
  have h1: "truthy_str (role_id ?st)" by simp
  have h2: "trim (chat_input ?ui) \<noteq> []" unfolding tr by (simp add: utf16_def)
  have h3: "\<not> isLoading ?ui" by simp
  have h4: "\<lparr>msg_role = User, content = utf16 ''Who?''\<rparr>
      = \<lparr>msg_role = User, content = trim (chat_input ?ui)\<rparr>" unfolding tr by simp
  have h5: "\<lparr>msg_role = Assistant, content = utf16 ''Ann''\<rparr>
      = \<lparr>msg_role = Assistant,
         content = replyContent (Replied (Some (utf16 ''Ann'')) None)\<rparr>"
    by simp
  note c6 = C6_immediate_flush [OF h1 h2 h3 h4 h5 refl, where render = 20 and latency = 1500]
  have r: "role_id ?st' = Some ''r1''"
    unfolding handleSend_def Let_def fst_conv snd_conv tr
    by (simp add: utf16_def persistEvaluationChatNow_def rerender_def
        debounceEffect_def elapse_def saveEvaluationChat_def)
  from c6 r show ?thesis by (cases ?st') simp
qed

end
